theory Spec2Isabelle
  imports Complex_Main
begin

section \<open>The packaging script \<^verbatim>\<open>setup.py\<close>\<close>

text \<open>
  The script imports \<^verbatim>\<open>setuptools\<close>, reads \<^verbatim>\<open>pacopy/__about__.py\<close> next to itself,
  executes it into the dictionary \<^verbatim>\<open>about\<close>, and calls \<^verbatim>\<open>setup(...)\<close> with keyword
  arguments that are evaluated from left to right. Everything the script touches outside
  itself is a field of the environment; every exception is a value of \<open>error\<close>, and the
  script's result is either the exception that ended it or the keyword arguments
  \<^verbatim>\<open>setup\<close> was called with.
\<close>

subsection \<open>Exceptions, values, the environment\<close>

text \<open>
  The exceptions of the script, each with the name or path Python reports; \<open>Raised\<close> is
  any other exception (of the executed file, of \<^verbatim>\<open>find_packages\<close>, of the decoding).
\<close>

datatype error =
    ModuleNotFoundError string
  | FileNotFoundError string
  | NotADirectoryError string
  | IsADirectoryError string
  | PermissionError string
  | KeyError string
  | Raised string

type_synonym bytes = "nat list"

text \<open>
  The file system as path resolution sees it (symbolic links followed): a path, as the
  list of its components from the root, names a regular file with its content, a
  directory, something the process may not access, or nothing.
\<close>

type_synonym path = "string list"

datatype node = File bytes | Dir | NoAccess

text \<open>
  An argument of \<^verbatim>\<open>setup\<close> that may hold an object taken from \<^verbatim>\<open>about\<close>: a string
  literal of the script, or whatever object the executed file bound to the name.
\<close>

datatype 'v pyobj = Str string | Obj 'v

text \<open>
  \<^item> \<open>setuptools_installed\<close>: whether \<^verbatim>\<open>from setuptools import find_packages, setup\<close>
    finds the module;
  \<^item> \<open>base_dir\<close> is \<^verbatim>\<open>os.path.abspath(os.path.dirname(__file__))\<close>;
  \<^item> \<open>cwd\<close> is the working directory, against which \<^verbatim>\<open>open\<close> resolves a relative
    path;
  \<^item> \<open>nodes\<close> is the file system;
  \<^item> \<open>exec_code src g\<close> is \<^verbatim>\<open>exec(src, g)\<close>: the globals after running \<open>src\<close>,
    or the exception it raised;
  \<^item> \<open>find_packages\<close> is what \<^verbatim>\<open>setuptools.find_packages()\<close> returns (or raises);
  \<^item> \<open>decode\<close> is the text decoding \<^verbatim>\<open>open(p).read()\<close> applies in text mode.
\<close>

record 'v environment =
  setuptools_installed :: bool
  base_dir :: string
  cwd :: path
  nodes :: "path \<rightharpoonup> node"
  exec_code :: "bytes \<Rightarrow> (string \<rightharpoonup> 'v) \<Rightarrow> error + (string \<rightharpoonup> 'v)"
  find_packages :: "error + string list"
  decode :: "bytes \<Rightarrow> error + string"

text \<open>The keyword arguments of the call \<^verbatim>\<open>setup(...)\<close>, in the order of the script.\<close>

record 'v setup_kwargs =
  name :: string
  version :: 'v
  packages :: "string list"
  url :: string
  author :: 'v
  author_email :: 'v
  install_requires :: "string list"
  python_requires :: string
  description :: string
  long_description :: string
  long_description_content_type :: string
  license :: 'v
  classifiers :: "'v pyobj list"

subsection \<open>The Python operations the script uses\<close>

text \<open>Sequencing: an exception ends the script, a value goes on to the rest.\<close>

definition and_then :: "error + 'a \<Rightarrow> ('a \<Rightarrow> error + 'b) \<Rightarrow> error + 'b" where
  "and_then r k = (case r of Inl e \<Rightarrow> Inl e | Inr x \<Rightarrow> k x)"

text \<open>Line 3, \<^verbatim>\<open>from setuptools import find_packages, setup\<close>.\<close>

definition import_setuptools :: "'v environment \<Rightarrow> error + unit" where
  "import_setuptools env =
     (if setuptools_installed env then Inr () else Inl (ModuleNotFoundError ''setuptools''))"

text \<open>\<^verbatim>\<open>os.path.join\<close> (POSIX) of two components.\<close>

definition path_join :: "string \<Rightarrow> string \<Rightarrow> string" where
  "path_join a b =
     (if b \<noteq> [] \<and> hd b = CHR ''/'' then b
      else if a = [] \<or> last a = CHR ''/'' then a @ b
      else a @ ''/'' @ b)"

text \<open>
  The components of a path string, split at \<^verbatim>\<open>/\<close>. The paths of the script hold no
  \<^verbatim>\<open>.\<close> or \<^verbatim>\<open>..\<close> (\<^verbatim>\<open>abspath\<close> has removed them from \<open>base_dir\<close>), so none is
  interpreted.
\<close>

fun components_from :: "string \<Rightarrow> string \<Rightarrow> path" where
  "components_from acc [] = (if acc = [] then [] else [acc])"
| "components_from acc (c # cs) =
     (if c = CHR ''/'' then (if acc = [] then [] else [acc]) @ components_from [] cs
      else components_from (acc @ [c]) cs)"

definition components :: "string \<Rightarrow> path" where
  "components p = components_from [] p"

text \<open>The file a path string names: from the root when absolute, from \<open>cwd\<close> otherwise.\<close>

definition resolve :: "'v environment \<Rightarrow> string \<Rightarrow> path" where
  "resolve env p =
     (if p \<noteq> [] \<and> hd p = CHR ''/'' then components p else cwd env @ components p)"

text \<open>
  What \<^verbatim>\<open>open\<close> does with a path \<open>p\<close>: it walks the components; on the way a missing
  entry is \<^verbatim>\<open>FileNotFoundError\<close>, a regular file is \<^verbatim>\<open>NotADirectoryError\<close> and an
  inaccessible one \<^verbatim>\<open>PermissionError\<close>; at the end a directory is
  \<^verbatim>\<open>IsADirectoryError\<close> and a regular file is read. \<open>pre\<close> is the part walked so far.
\<close>

fun walk :: "(path \<rightharpoonup> node) \<Rightarrow> string \<Rightarrow> path \<Rightarrow> path \<Rightarrow> error + bytes" where
  "walk fs p pre [] =
     (case fs pre of
        None \<Rightarrow> Inl (FileNotFoundError p)
      | Some (File b) \<Rightarrow> Inr b
      | Some Dir \<Rightarrow> Inl (IsADirectoryError p)
      | Some NoAccess \<Rightarrow> Inl (PermissionError p))"
| "walk fs p pre (c # cs) =
     (case fs pre of
        None \<Rightarrow> Inl (FileNotFoundError p)
      | Some (File b) \<Rightarrow> Inl (NotADirectoryError p)
      | Some Dir \<Rightarrow> walk fs p (pre @ [c]) cs
      | Some NoAccess \<Rightarrow> Inl (PermissionError p))"

text \<open>\<^verbatim>\<open>open(p, "rb").read()\<close>: the bytes of the file, or the exception of \<^verbatim>\<open>open\<close>.\<close>

definition read_bytes :: "'v environment \<Rightarrow> string \<Rightarrow> error + bytes" where
  "read_bytes env p = walk (nodes env) p [] (resolve env p)"

text \<open>\<^verbatim>\<open>open(p).read()\<close>: the same file, decoded.\<close>

definition read_text :: "'v environment \<Rightarrow> string \<Rightarrow> error + string" where
  "read_text env p = and_then (read_bytes env p) (decode env)"

text \<open>\<^verbatim>\<open>d[k]\<close> on a dictionary: \<^verbatim>\<open>KeyError\<close> on a key it does not hold.\<close>

definition getitem :: "(string \<rightharpoonup> 'v) \<Rightarrow> string \<Rightarrow> error + 'v" where
  "getitem d k = (case d k of None \<Rightarrow> Inl (KeyError k) | Some v \<Rightarrow> Inr v)"

subsection \<open>The script\<close>

text \<open>The path \<^verbatim>\<open>os.path.join(base_dir, "pacopy", "__about__.py")\<close>.\<close>

definition about_path :: "'v environment \<Rightarrow> string" where
  "about_path env = path_join (path_join (base_dir env) ''pacopy'') ''__about__.py''"

text \<open>
  Lines 7 to 9: \<^verbatim>\<open>about = {}\<close>, then the file is opened, read and executed with
  \<^verbatim>\<open>about\<close> as its globals.
\<close>

definition load_about :: "'v environment \<Rightarrow> error + (string \<rightharpoonup> 'v)" where
  "load_about env =
     and_then (read_bytes env (about_path env)) (\<lambda>src. exec_code env src Map.empty)"

text \<open>
  Lines 12 to 33: the arguments of \<^verbatim>\<open>setup\<close>, evaluated in the order written. The ones
  that can raise are \<^verbatim>\<open>about[...]\<close>, \<^verbatim>\<open>find_packages()\<close> and
  \<^verbatim>\<open>open("README.md").read()\<close>; \<^verbatim>\<open>about["__license__"]\<close> is evaluated twice.
\<close>

definition call_setup :: "'v environment \<Rightarrow> (string \<rightharpoonup> 'v) \<Rightarrow> error + 'v setup_kwargs" where
  "call_setup env about =
     and_then (getitem about ''__version__'') (\<lambda>v.
     and_then (find_packages env) (\<lambda>pkgs.
     and_then (getitem about ''__author__'') (\<lambda>au.
     and_then (getitem about ''__email__'') (\<lambda>em.
     and_then (read_text env ''README.md'') (\<lambda>readme.
     and_then (getitem about ''__license__'') (\<lambda>lic.
     and_then (getitem about ''__license__'') (\<lambda>lic'.
     and_then (getitem about ''__status__'') (\<lambda>st.
       Inr \<lparr> name = ''pacopy'',
             version = v,
             packages = pkgs,
             url = ''https://github.com/nschloe/pacopy'',
             author = au,
             author_email = em,
             install_requires = [],
             python_requires = ''>=3.6'',
             description = ''Numerical continuation in Python'',
             long_description = readme,
             long_description_content_type = ''text/markdown'',
             license = lic,
             classifiers =
               [Obj lic', Obj st,
                Str ''Operating System :: OS Independent'',
                Str ''Programming Language :: Python'',
                Str ''Programming Language :: Python :: 3'',
                Str ''Topic :: Scientific/Engineering'',
                Str ''Topic :: Scientific/Engineering :: Mathematics''] \<rparr>))))))))"

text \<open>
  The whole script: \<open>Inl e\<close> when it ends with the exception \<open>e\<close> before \<^verbatim>\<open>setup\<close> is
  called, \<open>Inr kw\<close> when \<^verbatim>\<open>setup\<close> is called with the keyword arguments \<open>kw\<close>.
\<close>

definition run_setup :: "'v environment \<Rightarrow> error + 'v setup_kwargs" where
  "run_setup env =
     and_then (import_setuptools env) (\<lambda>_. and_then (load_about env) (call_setup env))"


text \<open>The keys of \<^verbatim>\<open>about\<close> the script reads, in the order of their first use.\<close>

definition about_keys :: "string list" where
  "about_keys = [''__version__'', ''__author__'', ''__email__'', ''__license__'', ''__status__'']"


subsection \<open>Example environments\<close>

text \<open>
  A checkout in \<^verbatim>\<open>/repo\<close>, with \<^verbatim>\<open>README.md\<close>, and an empty directory \<^verbatim>\<open>/tmp\<close>.
  \<open>about_src\<close> stands for the bytes of \<^verbatim>\<open>__about__.py\<close>.
\<close>

definition about_src :: bytes where
  "about_src = [95, 95]"

definition checkout :: "path \<rightharpoonup> node" where
  "checkout =
     [[] \<mapsto> Dir, [''tmp''] \<mapsto> Dir, [''repo''] \<mapsto> Dir,
      [''repo'', ''README.md''] \<mapsto> File [35, 32, 112],
      [''repo'', ''pacopy''] \<mapsto> Dir,
      [''repo'', ''pacopy'', ''__about__.py''] \<mapsto> File about_src]"



text \<open>
  An execution of \<^verbatim>\<open>/repo/setup.py\<close>: whether \<^verbatim>\<open>setuptools\<close> is installed, the names
  \<^verbatim>\<open>__about__.py\<close> binds, the file system and the working directory.
\<close>

definition example_env ::
  "bool \<Rightarrow> (string \<rightharpoonup> string) \<Rightarrow> (path \<rightharpoonup> node) \<Rightarrow> path \<Rightarrow> string environment" where
  "example_env installed bound fs wd =
     \<lparr> setuptools_installed = installed,
       base_dir = ''/repo'',
       cwd = wd,
       nodes = fs,
       exec_code = (\<lambda>src g. if src = about_src then Inr (g ++ bound) else Inl (Raised ''SyntaxError'')),
       find_packages = Inr [''pacopy''],
       decode = (\<lambda>b. Inr (map char_of b)) \<rparr>"

definition full_about :: "string \<rightharpoonup> string" where
  "full_about =
     [''__version__'' \<mapsto> ''0.1.0'', ''__author__'' \<mapsto> ''A'', ''__email__'' \<mapsto> ''a@b.c'',
      ''__license__'' \<mapsto> ''License :: OSI Approved :: MIT License'',
      ''__status__'' \<mapsto> ''Development Status :: 4 - Beta'']"


section \<open>The pseudo-arclength tangent\<close>

text \<open>
  The continuation driver and its components are not among the sources; the tangent
  below follows the specification's data model (Tangent), predictor design and external
  interfaces. Scalars are real numbers.
\<close>

text \<open>
  Modelled from the spec: the caller's vector-space operations of the Problem Adapter,
  which are not in the sources: "\<open>norm(vector) \<rightarrow> scalar\<close>, \<open>inner_product(vector, vector)
  \<rightarrow> scalar\<close>", with the multiplication of a vector by a scalar that re-normalising a
  direction takes. The vectors \<open>'u\<close> are the caller's, opaque to the core.
\<close>

record 'u adapter =
  norm_v :: "'u \<Rightarrow> real"
  inner_product :: "'u \<Rightarrow> 'u \<Rightarrow> real"
  scale_v :: "real \<Rightarrow> 'u \<Rightarrow> 'u"

text \<open>
  Modelled from the spec: the Tangent, which is not in the sources: a "direction
  \<open>(du, d\<lambda>)\<close> in the augmented \<open>(u, \<lambda>)\<close> space".
\<close>

record 'u tangent =
  du :: 'u
  dlam :: real

text \<open>
  Modelled from the spec: the norm and inner product of the augmented space "in the
  caller's norm", which are not in the sources: the caller's on the \<open>u\<close> part, the
  scalar ones on the \<open>\<lambda>\<close> part.
\<close>

definition tangent_norm :: "'u adapter \<Rightarrow> 'u tangent \<Rightarrow> real" where
  "tangent_norm P t = sqrt ((norm_v P (du t)) ^ 2 + (dlam t) ^ 2)"

definition tangent_inner :: "'u adapter \<Rightarrow> 'u tangent \<Rightarrow> 'u tangent \<Rightarrow> real" where
  "tangent_inner P s t = inner_product P (du s) (du t) + dlam s * dlam t"

text \<open>Modelled from the spec: a direction multiplied by a scalar; not in the sources.\<close>

definition rescale :: "'u adapter \<Rightarrow> real \<Rightarrow> 'u tangent \<Rightarrow> 'u tangent" where
  "rescale P c t = \<lparr> du = scale_v P c (du t), dlam = c * dlam t \<rparr>"

text \<open>
  Modelled from the spec: "re-normalizing" the solution of the augmented linear system,
  which is not in the sources. A direction of norm zero has no multiple of norm one:
  the division fails.
\<close>

definition renormalise :: "'u adapter \<Rightarrow> 'u tangent \<Rightarrow> 'u tangent option" where
  "renormalise P raw =
     (if tangent_norm P raw = 0 then None
      else Some (rescale P (1 / tangent_norm P raw) raw))"

text \<open>
  Modelled from the spec: the choice of sign, which is not in the sources: "its sign is
  chosen to maintain continuity with the previous tangent (inner product with the
  previous tangent must stay positive)".
\<close>

definition orient :: "'u adapter \<Rightarrow> 'u tangent \<Rightarrow> 'u tangent \<Rightarrow> 'u tangent" where
  "orient P prev t = (if tangent_inner P prev t < 0 then rescale P (- 1) t else t)"

text \<open>
  Modelled from the spec: the tangent stored after a successful correction, which is not
  in the sources: "a fresh tangent is recomputed by solving the augmented linear system
  at the new point and re-normalizing", then oriented. \<open>raw\<close> is the solution of the
  linear system, which the caller's solver gives.
\<close>

definition fresh_tangent :: "'u adapter \<Rightarrow> 'u tangent \<Rightarrow> 'u tangent \<Rightarrow> 'u tangent option" where
  "fresh_tangent P prev raw = map_option (orient P prev) (renormalise P raw)"

text \<open>
  Modelled from the spec: the tangents a run stores, which is not in the sources: one
  after each successful correction ("recomputed each accepted step"), each from the
  solution \<open>raw\<close> at the new point and the tangent stored before; \<open>None\<close> when a
  re-normalisation fails.
\<close>

fun stored_tangents :: "'u adapter \<Rightarrow> 'u tangent \<Rightarrow> 'u tangent list \<Rightarrow> 'u tangent list option" where
  "stored_tangents P prev [] = Some []"
| "stored_tangents P prev (raw # raws) =
     (case fresh_tangent P prev raw of
        None \<Rightarrow> None
      | Some t \<Rightarrow> map_option ((#) t) (stored_tangents P t raws))"

text \<open>
  Modelled from the spec: all tangents of a run, the first one re-normalised from the
  solution \<open>raw0\<close> at the starting point as every later one is; not in the sources.
\<close>

definition tangent_history :: "'u adapter \<Rightarrow> 'u tangent \<Rightarrow> 'u tangent list \<Rightarrow> 'u tangent list option" where
  "tangent_history P raw0 raws =
     (case renormalise P raw0 of
        None \<Rightarrow> None
      | Some t0 \<Rightarrow> map_option ((#) t0) (stored_tangents P t0 raws))"

text \<open>
  What the spec asks of the caller's operations: they "must be consistent (norm^2 =
  inner_product(v, v))", and, as for every inner product, multiplying a vector by \<open>c\<close>
  multiplies its inner product with itself by \<open>c^2\<close>.
\<close>

definition consistent :: "'u adapter \<Rightarrow> bool" where
  "consistent P \<longleftrightarrow>
     (\<forall>v. (norm_v P v) ^ 2 = inner_product P v v)
     \<and> (\<forall>c v. inner_product P (scale_v P c v) (scale_v P c v) = c ^ 2 * inner_product P v v)"

text \<open>An example: the real line as the caller's vector space.\<close>

definition real_line :: "real adapter" where
  "real_line = \<lparr> norm_v = abs, inner_product = (*), scale_v = (*) \<rparr>"

section \<open>Properties of the script\<close>

subsection \<open>Opening a file\<close>







subsection \<open>The script's outcome\<close>

lemma and_then_Inr:
  "and_then r k = Inr y \<longleftrightarrow> (\<exists>x. r = Inr x \<and> k x = Inr y)"
  by (cases r) (simp_all add: and_then_def)

lemma getitem_Inr: "getitem d k = Inr v \<longleftrightarrow> d k = Some v"
  by (simp add: getitem_def split: option.splits)

lemma call_setup_Inr:
  assumes "call_setup env about = Inr kw"
  shows "install_requires kw = [] \<and> python_requires kw = ''>=3.6''
    \<and> (\<forall>k \<in> set about_keys. about k \<noteq> None)"
  using assms
  unfolding call_setup_def and_then_Inr getitem_Inr about_keys_def
  by auto

lemma run_setup_Inr:
  "run_setup env = Inr kw \<longleftrightarrow>
     setuptools_installed env
     \<and> (\<exists>src about. read_bytes env (about_path env) = Inr src
        \<and> exec_code env src Map.empty = Inr about \<and> call_setup env about = Inr kw)"
  unfolding run_setup_def load_about_def and_then_Inr import_setuptools_def
  by auto

lemma run_setup_loaded:
  assumes "setuptools_installed env" and "read_bytes env (about_path env) = Inr src"
    and "exec_code env src Map.empty = Inr about"
  shows "run_setup env = call_setup env about"
  using assms by (simp add: run_setup_def load_about_def and_then_def import_setuptools_def)




subsection \<open>The example environments, evaluated\<close>

lemma example_about_path:
  "about_path (example_env i b fs wd) = ''/repo/pacopy/__about__.py''"
  by (simp add: about_path_def path_join_def example_env_def)

lemma example_resolve_about:
  "resolve (example_env i b fs wd) ''/repo/pacopy/__about__.py''
     = [''repo'', ''pacopy'', ''__about__.py'']"
  by (simp add: resolve_def components_def)

lemma example_resolve_readme:
  "resolve (example_env i b fs wd) ''README.md'' = wd @ [''README.md'']"
  by (simp add: resolve_def components_def example_env_def)

lemma example_read_about:
  "read_bytes (example_env i b checkout wd) ''/repo/pacopy/__about__.py'' = Inr about_src"
  unfolding read_bytes_def example_resolve_about
  by (simp add: example_env_def checkout_def)

lemma example_read_readme:
  "\<exists>txt. read_text (example_env i b checkout [''repo'']) ''README.md'' = Inr txt"
  unfolding read_text_def read_bytes_def example_resolve_readme
  by (simp add: and_then_def example_env_def checkout_def)


lemma example_exec:
  "exec_code (example_env i b fs wd) about_src Map.empty = Inr b"
  by (simp add: example_env_def)

lemma example_find_packages:
  "find_packages (example_env i b fs wd) = Inr [''pacopy'']"
  by (simp add: example_env_def)

lemma example_installed: "setuptools_installed (example_env i b fs wd) = i"
  by (simp add: example_env_def)



lemma example_full_runs:
  "\<exists>kw. run_setup (example_env True full_about checkout [''repo'']) = Inr kw"
proof -
  let ?E = "example_env True full_about checkout [''repo'']"
  from example_read_readme obtain content where "read_text ?E ''README.md'' = Inr content" by blast
  then have "\<exists>kw. call_setup ?E full_about = Inr kw"
    by (simp add: call_setup_def example_find_packages)
      (simp add: and_then_def getitem_def full_about_def)
  with run_setup_loaded [of ?E about_src full_about] show ?thesis
    by (simp add: example_installed example_about_path example_read_about example_exec)
qed



section \<open>The claims about \<^verbatim>\<open>setup.py\<close>\<close>




text \<open>
  C10. Whenever the script reaches the call of \<^verbatim>\<open>setup\<close>, in any environment and so
  for any content of \<^verbatim>\<open>pacopy/__about__.py\<close>, the keyword arguments declare no runtime
  dependency (\<^verbatim>\<open>install_requires\<close> is the empty list) and \<^verbatim>\<open>python_requires\<close> is
  \<^verbatim>\<open>">=3.6"\<close>.
\<close>

theorem setup_requirements:
  "run_setup env = Inr kw \<Longrightarrow> install_requires kw = [] \<and> python_requires kw = ''>=3.6''"
  unfolding run_setup_Inr using call_setup_Inr by blast

theorem setup_requirements_witness:
  "\<exists>kw. run_setup (example_env True full_about checkout [''repo'']) = Inr kw
     \<and> install_requires kw = [] \<and> python_requires kw = ''>=3.6''"
proof -
  from example_full_runs obtain kw where
    run: "run_setup (example_env True full_about checkout [''repo'']) = Inr kw" by blast
  from setup_requirements [OF run] run show ?thesis by blast
qed

section \<open>Properties of the tangent\<close>

text \<open>Multiplying a direction by \<open>c\<close> multiplies its norm by \<open>\<bar>c\<bar>\<close>.\<close>

lemma norm_scale:
  assumes "consistent P"
  shows "(norm_v P (scale_v P c v)) ^ 2 = c ^ 2 * (norm_v P v) ^ 2"
  using assms by (simp add: consistent_def)

lemma tangent_norm_rescale:
  assumes "consistent P"
  shows "tangent_norm P (rescale P c t) = \<bar>c\<bar> * tangent_norm P t"
proof -
  have "(norm_v P (scale_v P c (du t))) ^ 2 + (c * dlam t) ^ 2
      = c ^ 2 * ((norm_v P (du t)) ^ 2 + (dlam t) ^ 2)"
    by (simp add: norm_scale [OF assms] power_mult_distrib distrib_left)
  then show ?thesis
    by (simp add: tangent_norm_def rescale_def real_sqrt_mult)
qed

lemma tangent_norm_nonneg: "0 \<le> tangent_norm P t"
  by (simp add: tangent_norm_def)

lemma renormalise_unit:
  assumes "consistent P" and "renormalise P raw = Some t"
  shows "tangent_norm P t = 1"
proof -
  let ?n = "tangent_norm P raw"
  from assms(2) have nz: "?n \<noteq> 0" and t: "t = rescale P (1 / ?n) raw"
    by (auto simp add: renormalise_def split: if_splits)
  with tangent_norm_nonneg [of P raw] have pos: "0 < ?n" by simp
  from t tangent_norm_rescale [OF assms(1), of "1 / ?n" raw] pos show ?thesis by simp
qed

lemma orient_norm:
  assumes "consistent P"
  shows "tangent_norm P (orient P prev t) = tangent_norm P t"
  using tangent_norm_rescale [OF assms, of "- 1" t] by (simp add: orient_def)

lemma fresh_tangent_unit:
  assumes "consistent P" and "fresh_tangent P prev raw = Some t"
  shows "tangent_norm P t = 1"
proof -
  from assms(2) obtain t' where r: "renormalise P raw = Some t'" and t: "t = orient P prev t'"
    by (auto simp add: fresh_tangent_def)
  from renormalise_unit [OF assms(1) r] orient_norm [OF assms(1), of prev t'] t
  show ?thesis by simp
qed

lemma fresh_tangent_defined:
  "tangent_norm P raw \<noteq> 0 \<Longrightarrow> \<exists>t. fresh_tangent P prev raw = Some t"
  by (simp add: fresh_tangent_def renormalise_def)

lemma stored_tangents_unit:
  assumes "consistent P" and "stored_tangents P prev raws = Some ts"
  shows "\<forall>t \<in> set ts. tangent_norm P t = 1"
  using assms(2)
proof (induction raws arbitrary: prev ts)
  case Nil
  then show ?case by simp
next
  case (Cons raw raws)
  from Cons.prems obtain t ts' where f: "fresh_tangent P prev raw = Some t"
    and s: "stored_tangents P t raws = Some ts'" and ts: "ts = t # ts'"
    by (auto split: option.splits)
  from fresh_tangent_unit [OF assms(1) f] Cons.IH [OF s] ts show ?case by simp
qed

lemma stored_tangents_defined:
  assumes "\<forall>raw \<in> set raws. tangent_norm P raw \<noteq> 0"
  shows "\<exists>ts. stored_tangents P prev raws = Some ts \<and> length ts = length raws"
  using assms
proof (induction raws arbitrary: prev)
  case Nil
  then show ?case by simp
next
  case (Cons raw raws)
  from Cons.prems fresh_tangent_defined [of P raw prev]
  obtain t where f: "fresh_tangent P prev raw = Some t" by auto
  from Cons.prems Cons.IH [of t] obtain ts where
    "stored_tangents P t raws = Some ts" "length ts = length raws" by auto
  with f show ?case by simp
qed

lemma tangent_history_unit:
  assumes "consistent P" and "tangent_history P raw0 raws = Some ts"
  shows "\<forall>t \<in> set ts. tangent_norm P t = 1"
proof -
  from assms(2) obtain t0 ts' where r: "renormalise P raw0 = Some t0"
    and s: "stored_tangents P t0 raws = Some ts'" and ts: "ts = t0 # ts'"
    by (auto simp add: tangent_history_def split: option.splits)
  from renormalise_unit [OF assms(1) r] stored_tangents_unit [OF assms(1) s] ts
  show ?thesis by simp
qed

lemma tangent_history_defined:
  assumes "tangent_norm P raw0 \<noteq> 0" and "\<forall>raw \<in> set raws. tangent_norm P raw \<noteq> 0"
  shows "\<exists>ts. tangent_history P raw0 raws = Some ts \<and> length ts = Suc (length raws)"
proof -
  from assms(1) obtain t0 where r: "renormalise P raw0 = Some t0"
    by (auto simp add: renormalise_def)
  from stored_tangents_defined [OF assms(2), of t0] obtain ts where
    "stored_tangents P t0 raws = Some ts" "length ts = length raws" by auto
  with r show ?thesis by (simp add: tangent_history_def)
qed

lemma real_line_consistent: "consistent real_line"
  by (simp add: consistent_def real_line_def power2_eq_square algebra_simps)

lemma sqrt25: "sqrt (25::real) = 5"
  by (rule real_sqrt_unique) simp_all

lemma example_history:
  "tangent_history real_line \<lparr>du = 3, dlam = 4\<rparr> [\<lparr>du = 0, dlam = - 2\<rparr>]
     = Some [\<lparr>du = 3 / 5, dlam = 4 / 5\<rparr>, \<lparr>du = 0, dlam = 1\<rparr>]"
  by (simp add: tangent_history_def renormalise_def fresh_tangent_def orient_def rescale_def
      tangent_norm_def tangent_inner_def real_line_def sqrt25)

section \<open>The claim about the tangent\<close>

text \<open>
  C5. With the caller's norm and inner product consistent, the tangent stored after a
  successful correction has norm 1 in the caller's norm, and so has every tangent a
  pseudo-arclength run stores, the first included; being equal to 1 it is within every
  tolerance of 1. A run whose linear solves give directions of norm other than zero
  stores one tangent at the start and one after each successful correction.
\<close>

theorem tangent_unit_norm:
  assumes "consistent P"
  shows "(\<forall>t. fresh_tangent P prev raw = Some t \<longrightarrow> tangent_norm P t = 1)
    \<and> (\<forall>ts. tangent_history P raw0 raws = Some ts \<longrightarrow>
         (\<forall>t \<in> set ts. tangent_norm P t = 1 \<and> (\<forall>eps \<ge> 0. \<bar>tangent_norm P t - 1\<bar> \<le> eps)))
    \<and> (tangent_norm P raw0 \<noteq> 0 \<longrightarrow> (\<forall>r \<in> set raws. tangent_norm P r \<noteq> 0) \<longrightarrow>
         (\<exists>ts. tangent_history P raw0 raws = Some ts \<and> length ts = Suc (length raws)))"
proof (intro conjI allI impI)
  fix t
  assume "fresh_tangent P prev raw = Some t"
  with assms show "tangent_norm P t = 1" by (rule fresh_tangent_unit)
next
  fix ts
  assume "tangent_history P raw0 raws = Some ts"
  with assms have "\<forall>t \<in> set ts. tangent_norm P t = 1" by (rule tangent_history_unit)
  then show "\<forall>t \<in> set ts. tangent_norm P t = 1 \<and> (\<forall>eps \<ge> 0. \<bar>tangent_norm P t - 1\<bar> \<le> eps)"
    by simp
next
  assume "tangent_norm P raw0 \<noteq> 0" "\<forall>r \<in> set raws. tangent_norm P r \<noteq> 0"
  then show "\<exists>ts. tangent_history P raw0 raws = Some ts \<and> length ts = Suc (length raws)"
    by (rule tangent_history_defined)
qed

text \<open>
  On the real line: from the solutions \<open>(3, 4)\<close> at the start and \<open>(0, -2)\<close> after the
  first step, the run stores \<open>(3/5, 4/5)\<close> and then \<open>(0, 1)\<close>, the second with its sign
  turned to agree with the first; both have norm 1.
\<close>

theorem tangent_unit_norm_witness:
  "consistent real_line
   \<and> tangent_norm real_line \<lparr>du = 3, dlam = 4\<rparr> = 5
   \<and> tangent_norm real_line \<lparr>du = 0, dlam = - 2\<rparr> = 2
   \<and> tangent_history real_line \<lparr>du = 3, dlam = 4\<rparr> [\<lparr>du = 0, dlam = - 2\<rparr>]
       = Some [\<lparr>du = 3 / 5, dlam = 4 / 5\<rparr>, \<lparr>du = 0, dlam = 1\<rparr>]
   \<and> tangent_norm real_line \<lparr>du = 3 / 5, dlam = 4 / 5\<rparr> = 1
   \<and> tangent_norm real_line \<lparr>du = 0, dlam = 1\<rparr> = 1"
proof -
  note u = tangent_unit_norm [OF real_line_consistent,
      of "\<lparr>du = 3 / 5, dlam = 4 / 5\<rparr>" "\<lparr>du = 0, dlam = - 2\<rparr>"
        "\<lparr>du = 3, dlam = 4\<rparr>" "[\<lparr>du = 0, dlam = - 2\<rparr>]"]
  from u example_history
  have "tangent_norm real_line \<lparr>du = 3 / 5, dlam = 4 / 5\<rparr> = 1"
    and "tangent_norm real_line \<lparr>du = 0, dlam = 1\<rparr> = 1"
    by simp_all
  moreover have "tangent_norm real_line \<lparr>du = 3, dlam = 4\<rparr> = 5"
    by (simp add: tangent_norm_def real_line_def sqrt25)
  moreover have "tangent_norm real_line \<lparr>du = 0, dlam = - 2\<rparr> = 2"
    by (simp add: tangent_norm_def real_line_def)
  ultimately show ?thesis
    using real_line_consistent example_history by simp
qed

end
